theory Spec2Isabelle
  imports Complex_Main "HOL-Library.Word"
begin

unbundle bit_operations_syntax

section \<open>Python values\<close>

text \<open>
  The generator \<^verbatim>\<open>scripts/gen_biquad_coeffs.py\<close> computes with Python floats and
  unbounded Python integers. Python integers are \<open>int\<close>; \<^verbatim>\<open>&\<close> on them is \<open>AND\<close> (two's
  complement with infinite sign extension on both sides). A finite float is represented by
  the real number it denotes; infinities, NaN and the negative zero have no representation.

  Where the float operation of the source is exact on doubles, the model is exact for every
  finite double argument and writes out what happens at the edge of the double range: the
  multiplication by a power of two in the quantizer \<open>to_fixed\<close>, the halving of the sample
  rate in \<open>main\<close>, the comparisons, and the conversions between int and float.

  The design functions round: their sums, quotients, \<^verbatim>\<open>math.sin\<close>, \<^verbatim>\<open>math.cos\<close> and
  \<^verbatim>\<open>**\<close> are embedded as exact real operations, which is the formula the source computes
  and not the double it returns. The results below are stated so that they do not depend
  on it: about a design, only what holds of every coefficient set it returns; about
  \<open>main\<close>, only what follows from the order of its steps.
\<close>

datatype py_error = ZeroDivisionError | OverflowError | ValueError | OSError

text \<open>A number that is either a Python int or a Python float (argparse leaves a
  non-string default such as \<^verbatim>\<open>48000\<close> unconverted, so \<^verbatim>\<open>args.sample_rate\<close> can be either).\<close>

datatype pynum = PyInt int | PyFloat real

fun num_val :: "pynum \<Rightarrow> real" where
  "num_val (PyInt i) = of_int i"
| "num_val (PyFloat r) = r"

text \<open>\<^verbatim>\<open>int(x)\<close> on a float: truncation towards zero.\<close>

definition py_int :: "real \<Rightarrow> int" where
  "py_int x = (if x < 0 then \<lceil>x\<rceil> else \<lfloor>x\<rfloor>)"

type_synonym coeffs = "real \<times> real \<times> real \<times> real \<times> real"


section \<open>BiquadCoeffGenerator\<close>

text \<open>The object has the single field \<^verbatim>\<open>self.sample_rate\<close>; it is passed as the first
  argument. Float division by zero raises \<^verbatim>\<open>ZeroDivisionError\<close>. The arithmetic of
  these functions is the exact one: what they say is the formula, and they leave out the
  rounding of each operation, the overflow of \<open>omega\<close> (on which \<^verbatim>\<open>math.sin\<close> raises) and
  the overflow and underflow of \<^verbatim>\<open>10.0 ** (gain_db / 40.0)\<close>.\<close>

definition normalize :: "real \<Rightarrow> real \<Rightarrow> real \<Rightarrow> real \<Rightarrow> real \<Rightarrow> real \<Rightarrow> py_error + coeffs" where
  "normalize b0 b1 b2 a0 a1 a2 =
     (if a0 = 0 then Inl ZeroDivisionError
      else Inr (b0 / a0, b1 / a0, b2 / a0, a1 / a0, a2 / a0))"

definition lowpass :: "real \<Rightarrow> real \<Rightarrow> real \<Rightarrow> py_error + coeffs" where
  "lowpass sample_rate freq q =
     (if sample_rate = 0 then Inl ZeroDivisionError
      else let omega = 2 * pi * freq / sample_rate;
               sin_omega = sin omega;
               cos_omega = cos omega
           in if 2 * q = 0 then Inl ZeroDivisionError
              else let alpha = sin_omega / (2 * q);
                       b0 = (1 - cos_omega) / 2;
                       b1 = 1 - cos_omega;
                       b2 = (1 - cos_omega) / 2;
                       a0 = 1 + alpha;
                       a1 = - 2 * cos_omega;
                       a2 = 1 - alpha
                   in normalize b0 b1 b2 a0 a1 a2)"

definition highpass :: "real \<Rightarrow> real \<Rightarrow> real \<Rightarrow> py_error + coeffs" where
  "highpass sample_rate freq q =
     (if sample_rate = 0 then Inl ZeroDivisionError
      else let omega = 2 * pi * freq / sample_rate;
               sin_omega = sin omega;
               cos_omega = cos omega
           in if 2 * q = 0 then Inl ZeroDivisionError
              else let alpha = sin_omega / (2 * q);
                       b0 = (1 + cos_omega) / 2;
                       b1 = - (1 + cos_omega);
                       b2 = (1 + cos_omega) / 2;
                       a0 = 1 + alpha;
                       a1 = - 2 * cos_omega;
                       a2 = 1 - alpha
                   in normalize b0 b1 b2 a0 a1 a2)"

definition bandpass :: "real \<Rightarrow> real \<Rightarrow> real \<Rightarrow> py_error + coeffs" where
  "bandpass sample_rate freq q =
     (if sample_rate = 0 then Inl ZeroDivisionError
      else let omega = 2 * pi * freq / sample_rate;
               sin_omega = sin omega;
               cos_omega = cos omega
           in if 2 * q = 0 then Inl ZeroDivisionError
              else let alpha = sin_omega / (2 * q);
                       b0 = sin_omega / 2;
                       b1 = 0;
                       b2 = - sin_omega / 2;
                       a0 = 1 + alpha;
                       a1 = - 2 * cos_omega;
                       a2 = 1 - alpha
                   in normalize b0 b1 b2 a0 a1 a2)"

definition bandstop :: "real \<Rightarrow> real \<Rightarrow> real \<Rightarrow> py_error + coeffs" where
  "bandstop sample_rate freq q =
     (if sample_rate = 0 then Inl ZeroDivisionError
      else let omega = 2 * pi * freq / sample_rate;
               sin_omega = sin omega;
               cos_omega = cos omega
           in if 2 * q = 0 then Inl ZeroDivisionError
              else let alpha = sin_omega / (2 * q);
                       b0 = 1;
                       b1 = - 2 * cos_omega;
                       b2 = 1;
                       a0 = 1 + alpha;
                       a1 = - 2 * cos_omega;
                       a2 = 1 - alpha
                   in normalize b0 b1 b2 a0 a1 a2)"

text \<open>In exact arithmetic \<^verbatim>\<open>A = 10.0 ** (gain_db / 40.0)\<close> is positive, so the
  division \<^verbatim>\<open>alpha / A\<close> has no error branch here.\<close>

definition peaking :: "real \<Rightarrow> real \<Rightarrow> real \<Rightarrow> real \<Rightarrow> py_error + coeffs" where
  "peaking sample_rate freq q gain_db =
     (if sample_rate = 0 then Inl ZeroDivisionError
      else let omega = 2 * pi * freq / sample_rate;
               sin_omega = sin omega;
               cos_omega = cos omega;
               A = 10 powr (gain_db / 40)
           in if 2 * q = 0 then Inl ZeroDivisionError
              else let alpha = sin_omega / (2 * q);
                       b0 = 1 + alpha * A;
                       b1 = - 2 * cos_omega;
                       b2 = 1 - alpha * A;
                       a0 = 1 + alpha / A;
                       a1 = - 2 * cos_omega;
                       a2 = 1 - alpha / A
                   in normalize b0 b1 b2 a0 a1 a2)"


section \<open>Number formatting\<close>

definition nl :: string where
  "nl = [CHR 0x0A]"

definition digit_char :: "nat \<Rightarrow> char" where
  "digit_char d = ''0123456789ABCDEF'' ! d"

text \<open>The digits of a natural number in base 10 or 16, most significant first.\<close>

function digits :: "nat \<Rightarrow> nat \<Rightarrow> string" where
  "digits base n =
     (if base < 2 \<or> n < base then [digit_char n]
      else digits base (n div base) @ [digit_char (n mod base)])"
  by pat_completeness auto
termination
  by (relation "measure snd") auto

declare digits.simps [simp del]

text \<open>\<^verbatim>\<open>str(i)\<close> for an int, as an f-string field \<^verbatim>\<open>{i}\<close> renders it.\<close>

definition str_int :: "int \<Rightarrow> string" where
  "str_int i = (if i < 0 then ''-'' @ digits 10 (nat (- i)) else digits 10 (nat i))"

definition zfill :: "nat \<Rightarrow> string \<Rightarrow> string" where
  "zfill w s = replicate (w - length s) (CHR ''0'') @ s"

text \<open>\<^verbatim>\<open>format(n, "0{w}X")\<close>: upper-case hexadecimal, padded with zeros after the sign to
  at least \<open>w\<close> characters.\<close>

definition fmt_hex :: "nat \<Rightarrow> int \<Rightarrow> string" where
  "fmt_hex w n =
     (if n < 0 then ''-'' @ zfill (w - 1) (digits 16 (nat (- n)))
      else zfill w (digits 16 (nat n)))"

definition round_half_even :: "real \<Rightarrow> int" where
  "round_half_even x =
     (let f = \<lfloor>x\<rfloor>; d = x - of_int f
      in if d < 1 / 2 then f
         else if 1 / 2 < d then f + 1
         else if even f then f else f + 1)"

text \<open>\<^verbatim>\<open>format(v, "{w}.{p}f")\<close> for a finite \<open>v\<close>: the value rounded correctly (ties to
  even) to \<open>p\<close> decimals, a minus sign for every negative value, padded with spaces on the
  left to at least \<open>w\<close> characters. (Python also writes a minus sign for the negative
  zero, and \<^verbatim>\<open>inf\<close> and \<^verbatim>\<open>nan\<close> for the values that are not finite.)\<close>

definition fmt_f :: "nat \<Rightarrow> nat \<Rightarrow> real \<Rightarrow> string" where
  "fmt_f w p v =
     (let n = nat (round_half_even (\<bar>v\<bar> * 10 ^ p));
          body = (if v < 0 then ''-'' else []) @ digits 10 (n div 10 ^ p)
                 @ (if p = 0 then [] else ''.'' @ zfill p (digits 10 (n mod 10 ^ p)))
      in replicate (w - length body) (CHR '' '') @ body)"


section \<open>CoeffFormatter\<close>

subsection \<open>to_verilog\<close>

text \<open>
  \<^verbatim>\<open>scale = 2 ** frac_bits\<close>. For a non-negative exponent the result is the int
  \<open>2\<^bsup>frac_bits\<^esup>\<close>. For a negative exponent Python converts both operands to float and
  returns a float: the conversion of the exponent raises \<^verbatim>\<open>OverflowError\<close> when it rounds
  to \<open>2\<^bsup>1024\<^esup>\<close> in magnitude, that is from \<open>2\<^bsup>1024\<^esup> - 2\<^bsup>970\<^esup>\<close> on; otherwise the power
  is the double \<open>2\<^bsup>frac_bits\<^esup>\<close> down to \<open>2\<^bsup>-1074\<^esup>\<close> and \<open>0.0\<close> below. \<open>scale_of\<close> is the
  value, \<open>scale\<close> the assignment with its exception.
\<close>

definition scale_of :: "int \<Rightarrow> real" where
  "scale_of frac_bits =
     (if 0 \<le> frac_bits then 2 ^ nat frac_bits
      else if frac_bits < - 1074 then 0
      else 1 / 2 ^ nat (- frac_bits))"

definition scale :: "int \<Rightarrow> py_error + real" where
  "scale frac_bits =
     (if frac_bits \<le> - (2 ^ 1024 - 2 ^ 970) then Inl OverflowError
      else Inr (scale_of frac_bits))"

text \<open>
  The closure \<^verbatim>\<open>to_fixed\<close> together with the \<open>scale\<close> it reads:
  \<^verbatim>\<open>int(val * scale) & ((1 << width) - 1)\<close>, evaluated left to right:
  \<^item> \<^verbatim>\<open>val * scale\<close> converts an int \<open>scale\<close> to a float and raises
    \<^verbatim>\<open>OverflowError\<close> when \<open>scale \<ge> 2\<^bsup>1024\<^esup>\<close>;
  \<^item> the product of a finite double and a power of two is exact unless it leaves the
    double range: above it the product is infinite and \<^verbatim>\<open>int\<close> raises
    \<^verbatim>\<open>OverflowError\<close>; below the smallest normal number it is rounded, to a double
    of magnitude less than one, and \<^verbatim>\<open>int\<close> gives \<open>0\<close> as for the exact product;
  \<^item> \<^verbatim>\<open>1 << width\<close> raises \<^verbatim>\<open>ValueError\<close> for a negative shift count.
  The memory that a very large \<open>width\<close> or \<open>frac_bits\<close> needs is not modelled.
\<close>

definition to_fixed :: "int \<Rightarrow> int \<Rightarrow> real \<Rightarrow> py_error + int" where
  "to_fixed width frac_bits val =
     (case scale frac_bits of
        Inl e \<Rightarrow> Inl e
      | Inr s \<Rightarrow>
          if 1024 \<le> frac_bits then Inl OverflowError
          else if 2 ^ 1024 \<le> \<bar>val * s\<bar> then Inl OverflowError
          else if width < 0 then Inl ValueError
          else Inr (py_int (val * s) AND (push_bit (nat width) 1 - 1)))"

text \<open>One line \<^verbatim>\<open>parameter B0 = {width}'h{to_fixed(b0):0{width//4}X}; // {b0:8.6f}\<close>.\<close>

definition param_line :: "string \<Rightarrow> int \<Rightarrow> int \<Rightarrow> real \<Rightarrow> py_error + string" where
  "param_line name width frac_bits val =
     (case to_fixed width frac_bits val of
        Inl e \<Rightarrow> Inl e
      | Inr n \<Rightarrow>
          Inr (''parameter '' @ name @ '' = '' @ str_int width @ [CHR 0x27] @ ''h''
               @ fmt_hex (nat (width div 4)) n @ ''; // '' @ fmt_f 8 6 val))"

definition to_verilog :: "coeffs \<Rightarrow> int \<Rightarrow> int \<Rightarrow> py_error + string" where
  "to_verilog cs width frac_bits =
     (case cs of (b0, b1, b2, a1, a2) \<Rightarrow>
        case scale frac_bits of Inl e \<Rightarrow> Inl e | Inr s \<Rightarrow>
        case param_line ''B0'' width frac_bits b0 of Inl e \<Rightarrow> Inl e | Inr l0 \<Rightarrow>
        case param_line ''B1'' width frac_bits b1 of Inl e \<Rightarrow> Inl e | Inr l1 \<Rightarrow>
        case param_line ''B2'' width frac_bits b2 of Inl e \<Rightarrow> Inl e | Inr l2 \<Rightarrow>
        case param_line ''A1'' width frac_bits a1 of Inl e \<Rightarrow> Inl e | Inr l3 \<Rightarrow>
        case param_line ''A2'' width frac_bits a2 of Inl e \<Rightarrow> Inl e | Inr l4 \<Rightarrow>
          Inr (''// Biquad Filter Coefficients (Q'' @ str_int frac_bits @ ''.''
               @ str_int (width - frac_bits - 1) @ '')'' @ nl
               @ l0 @ nl @ l1 @ nl @ l2 @ nl @ l3 @ nl @ l4))"

subsection \<open>to_c and to_matlab\<close>

definition to_c :: "coeffs \<Rightarrow> string" where
  "to_c cs =
     (case cs of (b0, b1, b2, a1, a2) \<Rightarrow>
        ''// Biquad Filter Coefficients'' @ nl
        @ ''const float b_coeffs[3] = {'' @ fmt_f 12 9 b0 @ '', '' @ fmt_f 12 9 b1 @ '', ''
        @ fmt_f 12 9 b2 @ ''};'' @ nl
        @ ''const float a_coeffs[2] = {'' @ fmt_f 12 9 a1 @ '', '' @ fmt_f 12 9 a2 @ ''};'')"

definition to_matlab :: "coeffs \<Rightarrow> string" where
  "to_matlab cs =
     (case cs of (b0, b1, b2, a1, a2) \<Rightarrow>
        ''% Biquad Filter Coefficients'' @ nl
        @ ''b = ['' @ fmt_f 12 9 b0 @ '', '' @ fmt_f 12 9 b1 @ '', '' @ fmt_f 12 9 b2
        @ ''];'' @ nl
        @ ''a = [1.0, '' @ fmt_f 12 9 a1 @ '', '' @ fmt_f 12 9 a2 @ ''];'')"

subsection \<open>to_json\<close>

text \<open>The values \<^verbatim>\<open>json.dumps\<close> is given here: \<^verbatim>\<open>None\<close>, numbers, strings, lists and
  dicts (in insertion order).\<close>

datatype json = JNull | JNum pynum | JStr string | JArr "json list" | JObj "(string \<times> json) list"

definition join :: "string \<Rightarrow> string list \<Rightarrow> string" where
  "join sep xs = (case xs of [] \<Rightarrow> [] | y # ys \<Rightarrow> y @ concat (map (\<lambda>s. sep @ s) ys))"

definition quoted :: "string \<Rightarrow> string" where
  "quoted s = [CHR 0x22] @ s @ [CHR 0x22]"

text \<open>
  \<^verbatim>\<open>json.dumps(data, indent=2)\<close> at nesting depth \<open>lvl\<close>. The shortest-round-trip
  \<^verbatim>\<open>repr\<close> of a float is a parameter. Strings are written between quotes as they are:
  every string the generator passes is made of letters, digits and underscores, which
  JSON does not escape.
\<close>

fun json_dumps :: "(real \<Rightarrow> string) \<Rightarrow> nat \<Rightarrow> json \<Rightarrow> string" where
  "json_dumps repr lvl JNull = ''null''"
| "json_dumps repr lvl (JNum (PyInt i)) = str_int i"
| "json_dumps repr lvl (JNum (PyFloat r)) = repr r"
| "json_dumps repr lvl (JStr s) = quoted s"
| "json_dumps repr lvl (JArr xs) =
     (if xs = [] then ''[]''
      else ''['' @ nl
           @ join ('','' @ nl)
               (map (\<lambda>x. replicate (2 * (lvl + 1)) (CHR '' '') @ json_dumps repr (lvl + 1) x) xs)
           @ nl @ replicate (2 * lvl) (CHR '' '') @ '']'')"
| "json_dumps repr lvl (JObj kvs) =
     (if kvs = [] then ''{}''
      else ''{'' @ nl
           @ join ('','' @ nl)
               (map (\<lambda>kv. replicate (2 * (lvl + 1)) (CHR '' '') @ quoted (fst kv) @ '': ''
                           @ json_dumps repr (lvl + 1) (snd kv)) kvs)
           @ nl @ replicate (2 * lvl) (CHR '' '') @ ''}'')"

text \<open>The dict \<^verbatim>\<open>data\<close> built by \<^verbatim>\<open>to_json\<close>; \<^verbatim>\<open>if metadata:\<close> is false for \<^verbatim>\<open>None\<close> and
  for the empty dict.\<close>

definition to_json_data :: "coeffs \<Rightarrow> (string \<times> json) list option \<Rightarrow> json" where
  "to_json_data cs metadata =
     (case cs of (b0, b1, b2, a1, a2) \<Rightarrow>
        JObj ((''coefficients'',
                JObj [(''b'', JArr [JNum (PyFloat b0), JNum (PyFloat b1), JNum (PyFloat b2)]),
                      (''a'', JArr [JNum (PyFloat 1), JNum (PyFloat a1), JNum (PyFloat a2)])])
              # (case metadata of
                   None \<Rightarrow> []
                 | Some m \<Rightarrow> if m = [] then [] else [(''metadata'', JObj m)])))"

definition to_json :: "(real \<Rightarrow> string) \<Rightarrow> coeffs \<Rightarrow> (string \<times> json) list option \<Rightarrow> string" where
  "to_json repr cs metadata = json_dumps repr 0 (to_json_data cs metadata)"


section \<open>main\<close>

datatype filter_type = Lowpass | Highpass | Bandpass | Bandstop | Peaking

datatype output_format = Verilog | C | Matlab | Json

fun filter_type_name :: "filter_type \<Rightarrow> string" where
  "filter_type_name Lowpass = ''lowpass''"
| "filter_type_name Highpass = ''highpass''"
| "filter_type_name Bandpass = ''bandpass''"
| "filter_type_name Bandstop = ''bandstop''"
| "filter_type_name Peaking = ''peaking''"

text \<open>The namespace \<^verbatim>\<open>args\<close> that \<^verbatim>\<open>parser.parse_args()\<close> returns.\<close>

record args =
  arg_filter_type :: filter_type
  arg_freq :: real
  arg_sample_rate :: pynum
  arg_q :: real
  arg_gain :: real
  arg_output :: output_format
  arg_file :: "string option"
  arg_width :: int
  arg_frac_bits :: int

text \<open>What the process reads from outside: the \<^verbatim>\<open>repr\<close> of floats, and whether the
  \<^verbatim>\<open>with open(args.file, 'w')\<close> block succeeds for a path (the file can be opened and
  written). Printing to the two standard streams is taken to succeed.\<close>

record env =
  float_repr :: "real \<Rightarrow> string"
  can_open :: "string \<Rightarrow> bool"

text \<open>What a run leaves behind. An uncaught exception prints a traceback to the error
  stream and ends the process with exit code 1.\<close>

datatype err_out = Message string | Traceback py_error

record outcome =
  exit_code :: int
  stdout :: string
  stderr :: "err_out list"
  written :: "(string \<times> string) list"

definition sys_exit_1 :: "string \<Rightarrow> outcome" where
  "sys_exit_1 msg = \<lparr>exit_code = 1, stdout = [], stderr = [Message (msg @ nl)], written = []\<rparr>"

definition uncaught :: "py_error \<Rightarrow> outcome" where
  "uncaught e = \<lparr>exit_code = 1, stdout = [], stderr = [Traceback e], written = []\<rparr>"

text \<open>The \<^verbatim>\<open>if\<close>/\<^verbatim>\<open>elif\<close> chain on \<^verbatim>\<open>args.filter_type\<close>.\<close>

definition generate :: "args \<Rightarrow> py_error + coeffs" where
  "generate a =
     (let sr = num_val (arg_sample_rate a)
      in case arg_filter_type a of
           Lowpass \<Rightarrow> lowpass sr (arg_freq a) (arg_q a)
         | Highpass \<Rightarrow> highpass sr (arg_freq a) (arg_q a)
         | Bandpass \<Rightarrow> bandpass sr (arg_freq a) (arg_q a)
         | Bandstop \<Rightarrow> bandstop sr (arg_freq a) (arg_q a)
         | Peaking \<Rightarrow> peaking sr (arg_freq a) (arg_q a) (arg_gain a))"

definition metadata_of :: "args \<Rightarrow> (string \<times> json) list" where
  "metadata_of a =
     [(''filter_type'', JStr (filter_type_name (arg_filter_type a))),
      (''frequency'', JNum (PyFloat (arg_freq a))),
      (''sample_rate'', JNum (arg_sample_rate a)),
      (''q_factor'', JNum (PyFloat (arg_q a))),
      (''gain_db'', if arg_filter_type a = Peaking then JNum (PyFloat (arg_gain a)) else JNull)]"

text \<open>The \<^verbatim>\<open>if\<close>/\<^verbatim>\<open>elif\<close> chain on \<^verbatim>\<open>args.output\<close>.\<close>

definition format_output :: "env \<Rightarrow> args \<Rightarrow> coeffs \<Rightarrow> py_error + string" where
  "format_output e a cs =
     (case arg_output a of
        Verilog \<Rightarrow> to_verilog cs (arg_width a) (arg_frac_bits a)
      | C \<Rightarrow> Inr (to_c cs)
      | Matlab \<Rightarrow> Inr (to_matlab cs)
      | Json \<Rightarrow> Inr (to_json (float_repr e) cs (Some (metadata_of a))))"

text \<open>\<^verbatim>\<open>if args.file:\<close> is false for a missing and for an empty file name.\<close>

definition write_output :: "env \<Rightarrow> args \<Rightarrow> string \<Rightarrow> outcome" where
  "write_output e a doc =
     (case arg_file a of
        None \<Rightarrow> \<lparr>exit_code = 0, stdout = doc @ nl, stderr = [], written = []\<rparr>
      | Some f \<Rightarrow>
          if f = [] then \<lparr>exit_code = 0, stdout = doc @ nl, stderr = [], written = []\<rparr>
          else if can_open e f
            then \<lparr>exit_code = 0, stdout = ''Coefficients written to '' @ f @ nl,
                  stderr = [], written = [(f, doc)]\<rparr>
            else uncaught OSError)"

text \<open>
  \<^verbatim>\<open>args.sample_rate / 2\<close>. Halving a double is exact from \<open>2\<^bsup>-1021\<^esup>\<close> on; a smaller
  one is a multiple of \<open>2\<^bsup>-1074\<^esup>\<close> and its half is rounded to such a multiple, ties to
  even. The only int that \<^verbatim>\<open>parse_args\<close> leaves in \<^verbatim>\<open>args.sample_rate\<close> is the default
  \<open>48000\<close>, whose half is exact.
\<close>

definition float_half :: "real \<Rightarrow> real" where
  "float_half x =
     (if \<bar>x\<bar> < 1 / 2 ^ 1021 then of_int (round_half_even (x * 2 ^ 1073)) / 2 ^ 1074
      else x / 2)"

definition main :: "env \<Rightarrow> args \<Rightarrow> outcome" where
  "main e a =
     (if arg_freq a \<le> 0 \<or> float_half (num_val (arg_sample_rate a)) \<le> arg_freq a then
        sys_exit_1 (''Error: Frequency must be between 0 and ''
                    @ float_repr e (float_half (num_val (arg_sample_rate a))) @ '' Hz'')
      else if arg_q a \<le> 0 then
        sys_exit_1 ''Error: Q factor must be positive''
      else case generate a of
             Inl err \<Rightarrow> uncaught err
           | Inr cs \<Rightarrow>
               (case format_output e a cs of
                  Inl err \<Rightarrow> uncaught err
                | Inr doc \<Rightarrow> write_output e a doc))"


section \<open>The quantizer\<close>

lemma and_pow2_minus_1: "(k::int) AND (2 ^ n - 1) = k mod 2 ^ n"
  by (simp flip: mask_eq_exp_minus_1 take_bit_eq_mask add: take_bit_eq_mod)

lemma py_int_nonneg: "0 \<le> x \<Longrightarrow> py_int x = \<lfloor>x\<rfloor>"
  by (simp add: py_int_def)

lemma py_int_neg_frac: "x < 0 \<Longrightarrow> x \<notin> \<int> \<Longrightarrow> py_int x = \<lfloor>x\<rfloor> + 1"
proof -
  assume "x < 0" and "x \<notin> \<int>"
  then have "x \<noteq> of_int \<lfloor>x\<rfloor>"
    by (metis Ints_of_int)
  with \<open>x < 0\<close> show ?thesis
    by (simp add: py_int_def ceiling_altdef)
qed

lemma succ_mod_neq: "0 < n \<Longrightarrow> (k + 1) mod 2 ^ n \<noteq> (k::int) mod 2 ^ n"
proof
  assume n: "0 < n" and eq: "(k + 1) mod 2 ^ n = k mod 2 ^ n"
  then have "(2::int) ^ n dvd (k + 1) - k"
    by (simp add: mod_eq_dvd_iff)
  then have "(2::int) ^ n dvd 1" by simp
  moreover from n have "(2::int) dvd 2 ^ n" by simp
  ultimately have "(2::int) dvd 1" by (rule dvd_trans [rotated])
  then show False by simp
qed

lemma to_fixed_InrD:
  assumes "to_fixed width frac_bits v = Inr p"
  shows "0 \<le> width" and "p = py_int (v * scale_of frac_bits) AND (2 ^ nat width - 1)"
  using assms by (simp_all add: to_fixed_def scale_def split: if_splits)

lemma scale_of_double:
  assumes "- 1074 \<le> frac_bits"
  shows "scale frac_bits = Inr (scale_of frac_bits)" and "0 < scale_of frac_bits"
proof -
  have "- (2 ^ 1024 - 2 ^ 970) < (- 1074 :: int)"
    by simp
  with assms have "\<not> frac_bits \<le> - (2 ^ 1024 - 2 ^ 970)"
    by linarith
  then show "scale frac_bits = Inr (scale_of frac_bits)"
    by (simp only: scale_def if_False)
  from assms show "0 < scale_of frac_bits"
    by (simp add: scale_of_def)
qed

lemma to_fixed_Inr:
  assumes "0 \<le> width" "- 1074 \<le> frac_bits" "frac_bits < 1024"
    and "\<bar>v * scale_of frac_bits\<bar> < 2 ^ 1024"
  shows "to_fixed width frac_bits v = Inr (py_int (v * scale_of frac_bits) AND (2 ^ nat width - 1))"
  using assms scale_of_double(1) [OF assms(2)] by (simp add: to_fixed_def)

text \<open>
  Claim C1, as the code has it. \<^verbatim>\<open>int(val * scale)\<close> truncates towards zero, not towards
  minus infinity. Whenever the quantizer returns a pattern, the pattern is
  \<open>int(v * 2\<^bsup>frac_bits\<^esup>) & (2\<^bsup>width\<^esup> - 1)\<close>; the truncated integer is the floor for a
  non-negative scaled value, and for a scaled value that is negative and not an integer it
  is the floor plus one, so the pattern is \<open>(floor + 1) & mask\<close>, which differs from
  \<open>floor & mask\<close> for every positive width.
\<close>

theorem to_fixed_truncates:
  assumes "to_fixed width frac_bits v = Inr p"
  shows "p = py_int (v * scale_of frac_bits) AND (2 ^ nat width - 1)
    \<and> (0 \<le> v * scale_of frac_bits \<longrightarrow> py_int (v * scale_of frac_bits) = \<lfloor>v * scale_of frac_bits\<rfloor>)
    \<and> (v * scale_of frac_bits < 0 \<and> v * scale_of frac_bits \<notin> \<int> \<longrightarrow>
          py_int (v * scale_of frac_bits) = \<lfloor>v * scale_of frac_bits\<rfloor> + 1
        \<and> p = (\<lfloor>v * scale_of frac_bits\<rfloor> + 1) AND (2 ^ nat width - 1)
        \<and> (0 < width \<longrightarrow> p \<noteq> \<lfloor>v * scale_of frac_bits\<rfloor> AND (2 ^ nat width - 1)))"
proof -
  let ?x = "v * scale_of frac_bits"
  have p: "p = py_int ?x AND (2 ^ nat width - 1)"
    using assms by (rule to_fixed_InrD)
  have neg: "p = (\<lfloor>?x\<rfloor> + 1) AND (2 ^ nat width - 1)" if "?x < 0" "?x \<notin> \<int>"
    using p that by (simp add: py_int_neg_frac)
  have diff: "p \<noteq> \<lfloor>?x\<rfloor> AND (2 ^ nat width - 1)" if "?x < 0" "?x \<notin> \<int>" "0 < width"
  proof -
    from that(3) have "0 < nat width" by simp
    then have "(\<lfloor>?x\<rfloor> + 1) mod 2 ^ nat width \<noteq> \<lfloor>?x\<rfloor> mod 2 ^ nat width"
      by (rule succ_mod_neq)
    then show ?thesis
      using neg [OF that(1,2)] by (simp add: and_pow2_minus_1)
  qed
  show ?thesis
    using p neg diff by (auto simp: py_int_nonneg py_int_neg_frac)
qed

theorem to_fixed_truncates_witness:
  "to_fixed 8 4 (- 9 / 32) = Inr 252 \<and> (252 :: int) = (\<lfloor>(- 9 / 32 :: real) * 2 ^ 4\<rfloor> + 1) AND (2 ^ 8 - 1)
   \<and> (252 :: int) \<noteq> \<lfloor>(- 9 / 32 :: real) * 2 ^ 4\<rfloor> AND (2 ^ 8 - 1)"
proof -
  have r: "to_fixed 8 4 (- 9 / 32) = Inr 252"
    by (simp add: to_fixed_def scale_def scale_of_def py_int_def)
  from to_fixed_truncates [OF r] r show ?thesis
    by (simp add: scale_of_def)
qed

text \<open>The scaled value \<open>-9/32 * 16 = -4.5\<close> is truncated to \<open>-4\<close>, pattern \<open>252\<close>; its
  floor \<open>-5\<close> would give \<open>251\<close>.\<close>

theorem to_fixed_floor_counterexample:
  "to_fixed 8 4 (- 9 / 32) = Inr 252 \<and> \<lfloor>(- 9 / 32 :: real) * 2 ^ 4\<rfloor> AND (2 ^ 8 - 1) = 251"
  by (simp add: to_fixed_def scale_def scale_of_def py_int_def)

lemma wrap_laws:
  fixes raw :: int
  assumes "0 < n"
  shows "0 \<le> raw AND (2 ^ n - 1)"
    and "raw AND (2 ^ n - 1) < 2 ^ n"
    and "signed_take_bit (n - 1) (raw AND (2 ^ n - 1)) AND (2 ^ n - 1) = raw AND (2 ^ n - 1)"
    and "- (2 ^ (n - 1)) \<le> signed_take_bit (n - 1) (raw AND (2 ^ n - 1))"
    and "signed_take_bit (n - 1) (raw AND (2 ^ n - 1)) < 2 ^ (n - 1)"
proof -
  show "0 \<le> raw AND (2 ^ n - 1)" and "raw AND (2 ^ n - 1) < 2 ^ n"
    by (simp_all add: and_pow2_minus_1)
  from assms have "n \<le> Suc (n - 1)"
    by simp
  then have "take_bit n (signed_take_bit (n - 1) (take_bit n raw)) = take_bit n (take_bit n raw)"
    by (rule take_bit_signed_take_bit)
  then show "signed_take_bit (n - 1) (raw AND (2 ^ n - 1)) AND (2 ^ n - 1) = raw AND (2 ^ n - 1)"
    by (simp add: take_bit_eq_mask mask_eq_exp_minus_1)
  show "- (2 ^ (n - 1)) \<le> signed_take_bit (n - 1) (raw AND (2 ^ n - 1))"
    by (rule signed_take_bit_int_greater_eq_minus_exp)
  show "signed_take_bit (n - 1) (raw AND (2 ^ n - 1)) < 2 ^ (n - 1)"
    by (rule signed_take_bit_int_less_exp)
qed

text \<open>
  Claim C2, as the code has it. For a positive width every masked integer lies in
  \<open>[0, 2\<^bsup>width\<^esup>)\<close>, and reading the pattern as a width-bit two's-complement number
  and masking it again gives the pattern back. The quantizer returns the truncated scaled
  value reduced modulo \<open>2\<^bsup>width\<^esup>\<close>, whatever its size, without saturating and without an
  exception, when \<open>2\<^bsup>frac_bits\<^esup>\<close> and the scaled value are finite doubles
  (\<open>-1074 \<le> frac_bits < 1024\<close> and \<open>|v * 2\<^bsup>frac_bits\<^esup>| < 2\<^bsup>1024\<^esup>\<close>) and the width is at
  most \<open>65536\<close>, a bound under which the shift needs a few kilobytes.
\<close>

theorem to_fixed_wraps:
  assumes "0 < width"
  shows "(\<forall>raw :: int.
          0 \<le> raw AND (2 ^ nat width - 1)
        \<and> raw AND (2 ^ nat width - 1) < 2 ^ nat width
        \<and> - (2 ^ (nat width - 1)) \<le> signed_take_bit (nat width - 1) (raw AND (2 ^ nat width - 1))
        \<and> signed_take_bit (nat width - 1) (raw AND (2 ^ nat width - 1)) < 2 ^ (nat width - 1)
        \<and> signed_take_bit (nat width - 1) (raw AND (2 ^ nat width - 1)) AND (2 ^ nat width - 1)
            = raw AND (2 ^ nat width - 1))
    \<and> (width \<le> 65536 \<and> - 1074 \<le> frac_bits \<and> frac_bits < 1024
        \<and> \<bar>v * scale_of frac_bits\<bar> < 2 ^ 1024 \<longrightarrow>
          to_fixed width frac_bits v = Inr (py_int (v * scale_of frac_bits) mod 2 ^ nat width))"
proof -
  have "to_fixed width frac_bits v = Inr (py_int (v * scale_of frac_bits) mod 2 ^ nat width)"
    if "- 1074 \<le> frac_bits" "frac_bits < 1024" "\<bar>v * scale_of frac_bits\<bar> < 2 ^ 1024"
    using assms that by (simp add: to_fixed_Inr and_pow2_minus_1)
  moreover from assms have "0 < nat width"
    by simp
  ultimately show ?thesis
    using wrap_laws [of "nat width"] by blast
qed

theorem to_fixed_wraps_witness:
  "to_fixed 8 4 20 = Inr 64
   \<and> signed_take_bit 7 (144 AND (2 ^ 8 - 1)) AND (2 ^ 8 - 1) = (144 AND (2 ^ 8 - 1) :: int)"
  using to_fixed_wraps [of 8 4 20]
  by (simp add: scale_of_def py_int_def)

text \<open>Outside that range the quantizer does raise: the finite double \<open>2\<^bsup>1023\<^esup>\<close> times
  \<open>2\<^bsup>16\<^esup>\<close> is infinite as a float, and \<^verbatim>\<open>int\<close> of an infinite float is an
  \<^verbatim>\<open>OverflowError\<close>.\<close>

theorem to_fixed_raises_counterexample:
  "to_fixed 18 16 (2 ^ 1023) = Inl OverflowError"
  by (simp add: to_fixed_def scale_def scale_of_def)

section \<open>The highpass design\<close>



section \<open>The command line\<close>

lemma to_fixed_negative_width: "width < 0 \<Longrightarrow> \<exists>err. to_fixed width frac_bits v = Inl err"
  by (simp add: to_fixed_def split: sum.split)

lemma to_verilog_negative_width:
  assumes "width < 0"
  shows "\<exists>err. to_verilog cs width frac_bits = Inl err"
proof -
  obtain b0 b1 b2 a1 a2 where cs: "cs = (b0, b1, b2, a1, a2)"
    by (cases cs) auto
  from assms obtain err where "to_fixed width frac_bits b0 = Inl err"
    using to_fixed_negative_width by blast
  then show ?thesis
    by (simp add: cs to_verilog_def param_line_def split: sum.split)
qed

lemma to_verilog_returns:
  assumes "0 \<le> width" "- 1074 \<le> frac_bits" "frac_bits < 1024"
    and "\<bar>b0 * scale_of frac_bits\<bar> < 2 ^ 1024" "\<bar>b1 * scale_of frac_bits\<bar> < 2 ^ 1024"
    and "\<bar>b2 * scale_of frac_bits\<bar> < 2 ^ 1024" "\<bar>a1 * scale_of frac_bits\<bar> < 2 ^ 1024"
    and "\<bar>a2 * scale_of frac_bits\<bar> < 2 ^ 1024"
  shows "\<exists>doc. to_verilog (b0, b1, b2, a1, a2) width frac_bits = Inr doc"
  using assms(4-8) [THEN to_fixed_Inr [OF assms(1-3)]] scale_of_double(1) [OF assms(2)]
  by (simp add: to_verilog_def param_line_def)

lemma format_output_not_verilog:
  "arg_output a \<noteq> Verilog \<Longrightarrow> \<exists>doc. format_output e a cs = Inr doc"
  by (cases "arg_output a") (simp_all add: format_output_def)

lemma exit_code_write_output:
  "exit_code (write_output e a doc) = 0 \<longleftrightarrow>
     (case arg_file a of None \<Rightarrow> True | Some f \<Rightarrow> f = [] \<or> can_open e f)"
  by (simp add: write_output_def uncaught_def split: option.split)

lemma float_half_exact: "1 / 2 ^ 1021 \<le> \<bar>x\<bar> \<Longrightarrow> float_half x = x / 2"
  by (simp add: float_half_def)

text \<open>
  Claim C4, as the code has it. The sample rate is a float given on the command line or
  the default int \<open>48000\<close>. A frequency \<open>freq \<le> 0\<close> or \<open>freq \<ge> sample_rate / 2\<close>, and
  then a factor \<open>q \<le> 0\<close>, ends the run in \<^verbatim>\<open>sys.exit(1)\<close> with one diagnostic on the
  error stream, nothing on the output stream and no file written; no design function is
  reached. Here \<open>sample_rate / 2\<close> is the double that the division returns, the exact half
  for every sample rate from \<open>2\<^bsup>-1021\<^esup>\<close> on. For \<open>0 < freq < sample_rate / 2\<close> and \<open>q > 0\<close>
  the run goes on to the design; its exit code is \<open>0\<close> exactly when the design function
  and the selected encoder return and the output file, if one is named, can be opened, and
  \<open>1\<close> otherwise. The encoders for C, MATLAB and JSON always return; with the Verilog
  encoder and a negative width the exit code is \<open>1\<close>.
\<close>

theorem main_validation:
  assumes "arg_sample_rate a = PyInt 48000 \<or> (\<exists>r. arg_sample_rate a = PyFloat r)"
  shows "(arg_freq a \<le> 0 \<or> float_half (num_val (arg_sample_rate a)) \<le> arg_freq a \<longrightarrow>
      main e a = sys_exit_1 (''Error: Frequency must be between 0 and ''
                             @ float_repr e (float_half (num_val (arg_sample_rate a))) @ '' Hz''))
   \<and> (0 < arg_freq a \<and> arg_freq a < float_half (num_val (arg_sample_rate a)) \<and> arg_q a \<le> 0 \<longrightarrow>
      main e a = sys_exit_1 ''Error: Q factor must be positive'')
   \<and> (\<forall>msg. exit_code (sys_exit_1 msg) = 1 \<and> stderr (sys_exit_1 msg) = [Message (msg @ nl)]
         \<and> stdout (sys_exit_1 msg) = [] \<and> written (sys_exit_1 msg) = [])
   \<and> (1 / 2 ^ 1021 \<le> \<bar>num_val (arg_sample_rate a)\<bar> \<longrightarrow>
        float_half (num_val (arg_sample_rate a)) = num_val (arg_sample_rate a) / 2)
   \<and> (0 < arg_freq a \<and> arg_freq a < float_half (num_val (arg_sample_rate a)) \<and> 0 < arg_q a \<longrightarrow>
        main e a = (case generate a of
                      Inl err \<Rightarrow> uncaught err
                    | Inr cs \<Rightarrow>
                        (case format_output e a cs of
                           Inl err \<Rightarrow> uncaught err
                         | Inr doc \<Rightarrow> write_output e a doc))
      \<and> (exit_code (main e a) = 0 \<longleftrightarrow>
           (\<exists>cs doc. generate a = Inr cs \<and> format_output e a cs = Inr doc)
           \<and> (case arg_file a of None \<Rightarrow> True | Some f \<Rightarrow> f = [] \<or> can_open e f))
      \<and> (exit_code (main e a) = 0 \<or> exit_code (main e a) = 1)
      \<and> (arg_output a \<noteq> Verilog \<longrightarrow> (\<forall>cs. \<exists>doc. format_output e a cs = Inr doc))
      \<and> (arg_output a = Verilog \<and> arg_width a < 0 \<longrightarrow> exit_code (main e a) = 1))"
proof (intro conjI impI allI)
  assume "arg_freq a \<le> 0 \<or> float_half (num_val (arg_sample_rate a)) \<le> arg_freq a"
  then show "main e a = sys_exit_1 (''Error: Frequency must be between 0 and ''
      @ float_repr e (float_half (num_val (arg_sample_rate a))) @ '' Hz'')"
    by (simp add: main_def)
next
  assume "0 < arg_freq a \<and> arg_freq a < float_half (num_val (arg_sample_rate a)) \<and> arg_q a \<le> 0"
  then show "main e a = sys_exit_1 ''Error: Q factor must be positive''"
    by (simp add: main_def)
next
  fix msg
  show "exit_code (sys_exit_1 msg) = 1" "stderr (sys_exit_1 msg) = [Message (msg @ nl)]"
    "stdout (sys_exit_1 msg) = []" "written (sys_exit_1 msg) = []"
    by (simp_all add: sys_exit_1_def)
next
  assume "1 / 2 ^ 1021 \<le> \<bar>num_val (arg_sample_rate a)\<bar>"
  then show "float_half (num_val (arg_sample_rate a)) = num_val (arg_sample_rate a) / 2"
    by (rule float_half_exact)
next
  assume valid: "0 < arg_freq a \<and> arg_freq a < float_half (num_val (arg_sample_rate a)) \<and> 0 < arg_q a"
  then show run: "main e a = (case generate a of
      Inl err \<Rightarrow> uncaught err
    | Inr cs \<Rightarrow>
        (case format_output e a cs of
           Inl err \<Rightarrow> uncaught err
         | Inr doc \<Rightarrow> write_output e a doc))"
    by (simp add: main_def)
  show code: "exit_code (main e a) = 0 \<longleftrightarrow>
      (\<exists>cs doc. generate a = Inr cs \<and> format_output e a cs = Inr doc)
      \<and> (case arg_file a of None \<Rightarrow> True | Some f \<Rightarrow> f = [] \<or> can_open e f)"
    unfolding run
    by (cases "generate a"; cases "format_output e a (projr (generate a))")
      (simp_all add: uncaught_def exit_code_write_output)
  show "exit_code (main e a) = 0 \<or> exit_code (main e a) = 1"
    unfolding run
    by (auto simp: uncaught_def write_output_def split: sum.split option.split)
  assume neg: "arg_output a = Verilog \<and> arg_width a < 0"
  show "exit_code (main e a) = 1"
  proof (cases "generate a")
    case (Inl err)
    then show ?thesis
      by (simp add: run uncaught_def)
  next
    case (Inr cs)
    from neg obtain err where "format_output e a cs = Inl err"
      using to_verilog_negative_width [of "arg_width a" cs "arg_frac_bits a"]
      by (auto simp: format_output_def)
    with Inr show ?thesis
      by (simp add: run uncaught_def)
  qed
next
  fix cs
  assume "arg_output a \<noteq> Verilog"
  then show "\<exists>doc. format_output e a cs = Inr doc"
    by (rule format_output_not_verilog)
qed

theorem main_validation_witness:
  "main \<lparr>float_repr = fmt_f 0 1, can_open = List.null\<rparr>
        \<lparr>arg_filter_type = Lowpass, arg_freq = 24000, arg_sample_rate = PyInt 48000,
         arg_q = 1, arg_gain = 0, arg_output = C, arg_file = None,
         arg_width = 18, arg_frac_bits = 16\<rparr>
     = sys_exit_1 (''Error: Frequency must be between 0 and '' @ fmt_f 0 1 24000 @ '' Hz'')
   \<and> main \<lparr>float_repr = fmt_f 0 1, can_open = List.null\<rparr>
        \<lparr>arg_filter_type = Lowpass, arg_freq = 12000, arg_sample_rate = PyInt 48000,
         arg_q = 0, arg_gain = 0, arg_output = C, arg_file = None,
         arg_width = 18, arg_frac_bits = 16\<rparr>
     = sys_exit_1 ''Error: Q factor must be positive''
   \<and> exit_code (main \<lparr>float_repr = fmt_f 0 1, can_open = List.null\<rparr>
        \<lparr>arg_filter_type = Lowpass, arg_freq = 12000, arg_sample_rate = PyInt 48000,
         arg_q = 1, arg_gain = 0, arg_output = C, arg_file = None,
         arg_width = 18, arg_frac_bits = 16\<rparr>) = 0
   \<and> exit_code (main \<lparr>float_repr = fmt_f 0 1, can_open = List.null\<rparr>
        \<lparr>arg_filter_type = Lowpass, arg_freq = 12000, arg_sample_rate = PyInt 48000,
         arg_q = 1, arg_gain = 0, arg_output = Verilog, arg_file = None,
         arg_width = 18, arg_frac_bits = 16\<rparr>) = 0"
proof -
  let ?e = "\<lparr>float_repr = fmt_f 0 1, can_open = List.null\<rparr>"
  let ?hw = "\<lparr>arg_filter_type = Lowpass, arg_freq = 12000, arg_sample_rate = PyInt 48000,
      arg_q = 1, arg_gain = 0, arg_output = Verilog, arg_file = None,
      arg_width = 18, arg_frac_bits = 16\<rparr>"
  let ?nyquist = "\<lparr>arg_filter_type = Lowpass, arg_freq = 24000, arg_sample_rate = PyInt 48000,
      arg_q = 1, arg_gain = 0, arg_output = C, arg_file = None,
      arg_width = 18, arg_frac_bits = 16\<rparr>"
  let ?q0 = "\<lparr>arg_filter_type = Lowpass, arg_freq = 12000, arg_sample_rate = PyInt 48000,
      arg_q = 0, arg_gain = 0, arg_output = C, arg_file = None,
      arg_width = 18, arg_frac_bits = 16\<rparr>"
  let ?ok = "\<lparr>arg_filter_type = Lowpass, arg_freq = 12000, arg_sample_rate = PyInt 48000,
      arg_q = 1, arg_gain = 0, arg_output = C, arg_file = None,
      arg_width = 18, arg_frac_bits = 16\<rparr>"
  let ?cs = "(1 / 3, 2 / 3, 1 / 3, 0, 1 / 3) :: coeffs"
  have half: "float_half 48000 = 24000"
    by (simp add: float_half_def)
  have gen: "generate ?ok = Inr ?cs" "generate ?hw = Inr ?cs"
    by (simp_all add: generate_def lowpass_def normalize_def Let_def)
  have "\<exists>doc. to_verilog ?cs 18 16 = Inr doc"
    by (rule to_verilog_returns) (simp_all add: scale_of_def)
  then have ver: "\<exists>doc. format_output ?e ?hw ?cs = Inr doc"
    by (simp add: format_output_def)
  have "main ?e ?nyquist
      = sys_exit_1 (''Error: Frequency must be between 0 and '' @ fmt_f 0 1 24000 @ '' Hz'')"
    using main_validation [of ?nyquist ?e] by (simp add: half)
  moreover have "main ?e ?q0 = sys_exit_1 ''Error: Q factor must be positive''"
    using main_validation [of ?q0 ?e] by (simp add: half)
  moreover have "exit_code (main ?e ?ok) = 0"
    using main_validation [of ?ok ?e] gen(1) by (auto simp: half)
  moreover have "exit_code (main ?e ?hw) = 0"
    using main_validation [of ?hw ?e] gen(2) ver by (auto simp: half)
  ultimately show ?thesis
    by simp
qed

text \<open>An accepted frequency and quality factor with \<^verbatim>\<open>--width -1\<close>: the shift
  \<^verbatim>\<open>1 << width\<close> raises \<^verbatim>\<open>ValueError\<close> and the run ends with exit code \<open>1\<close>. The
  environment given here plays no part in it.\<close>

theorem main_exit_code_counterexample:
  "(0::real) < 12000 \<and> (12000::real) < num_val (PyInt 48000) / 2 \<and> (0::real) < 1
   \<and> main \<lparr>float_repr = fmt_f 0 1, can_open = List.null\<rparr>
        \<lparr>arg_filter_type = Lowpass, arg_freq = 12000, arg_sample_rate = PyInt 48000,
         arg_q = 1, arg_gain = 0, arg_output = Verilog, arg_file = None,
         arg_width = - 1, arg_frac_bits = 16\<rparr>
     = \<lparr>exit_code = 1, stdout = [], stderr = [Traceback ValueError], written = []\<rparr>"
  by (simp add: main_def float_half_def generate_def lowpass_def normalize_def format_output_def
      to_verilog_def param_line_def to_fixed_def scale_def scale_of_def uncaught_def)

section \<open>The metadata of the JSON document\<close>

lemma json_dumps_metadata_of:
  "json_dumps repr 1 (JObj (metadata_of a)) =
     ''{'' @ nl
     @ ''    '' @ quoted ''filter_type'' @ '': '' @ quoted (filter_type_name (arg_filter_type a))
     @ '','' @ nl
     @ ''    '' @ quoted ''frequency'' @ '': '' @ repr (arg_freq a) @ '','' @ nl
     @ ''    '' @ quoted ''sample_rate'' @ '': '' @ json_dumps repr 2 (JNum (arg_sample_rate a))
     @ '','' @ nl
     @ ''    '' @ quoted ''q_factor'' @ '': '' @ repr (arg_q a) @ '','' @ nl
     @ ''    '' @ quoted ''gain_db'' @ '': ''
     @ (if arg_filter_type a = Peaking then repr (arg_gain a) else ''null'')
     @ nl @ ''  }''"
  by (simp add: metadata_of_def join_def numeral_eq_Suc)

lemma to_json_with_metadata:
  "m \<noteq> [] \<Longrightarrow> \<exists>pre. to_json repr cs (Some m) = pre @ json_dumps repr 1 (JObj m) @ nl @ ''}''"
proof -
  assume m: "m \<noteq> []"
  obtain b0 b1 b2 a1 a2 where cs: "cs = (b0, b1, b2, a1, a2)"
    by (cases cs) auto
  let ?c = "JObj [(''b'', JArr [JNum (PyFloat b0), JNum (PyFloat b1), JNum (PyFloat b2)]),
                  (''a'', JArr [JNum (PyFloat 1), JNum (PyFloat a1), JNum (PyFloat a2)])]"
  have data: "to_json_data cs (Some m) = JObj [(''coefficients'', ?c), (''metadata'', JObj m)]"
    using m by (simp add: to_json_data_def cs)
  have "to_json repr cs (Some m) =
      (''{'' @ nl @ ''  '' @ quoted ''coefficients'' @ '': '' @ json_dumps repr 1 ?c
       @ '','' @ nl @ ''  '' @ quoted ''metadata'' @ '': '')
      @ json_dumps repr 1 (JObj m) @ nl @ ''}''"
    unfolding to_json_def data
    by (subst json_dumps.simps(6) [of repr 0]) (simp add: join_def numeral_eq_Suc del: json_dumps.simps(5,6))
  then show ?thesis
    by blast
qed


lemma metadata_of_not_Nil: "metadata_of a \<noteq> []"
  by (simp add: metadata_of_def)

text \<open>
  Claim C5, as the code has it. The metadata dict always has the five keys
  \<^verbatim>\<open>filter_type\<close>, \<^verbatim>\<open>frequency\<close>, \<^verbatim>\<open>sample_rate\<close>, \<^verbatim>\<open>q_factor\<close> and \<^verbatim>\<open>gain_db\<close>. The
  value under \<^verbatim>\<open>gain_db\<close> is the supplied gain for a peaking filter and \<^verbatim>\<open>None\<close> for the
  other four types; the JSON document carries the dict as its last member, so its text
  ends with the line \<^verbatim>\<open>"gain_db": null\<close> for those types and with the gain for peaking.
\<close>

theorem metadata_gain_db:
  "map fst (metadata_of a) = [''filter_type'', ''frequency'', ''sample_rate'', ''q_factor'', ''gain_db'']
   \<and> map_of (metadata_of a) ''gain_db''
       = Some (if arg_filter_type a = Peaking then JNum (PyFloat (arg_gain a)) else JNull)
   \<and> (arg_output a = Json \<longrightarrow>
        format_output e a cs
          = Inr (json_dumps (float_repr e) 0 (to_json_data cs (Some (metadata_of a))))
      \<and> (\<exists>rest. to_json_data cs (Some (metadata_of a))
             = JObj (rest @ [(''metadata'', JObj (metadata_of a))]))
      \<and> (\<exists>pre. format_output e a cs
             = Inr (pre @ '','' @ nl @ ''    '' @ quoted ''gain_db'' @ '': ''
                    @ (if arg_filter_type a = Peaking then float_repr e (arg_gain a) else ''null'')
                    @ nl @ ''  }'' @ nl @ ''}'')))"
proof (intro conjI impI)
  show "map fst (metadata_of a)
      = [''filter_type'', ''frequency'', ''sample_rate'', ''q_factor'', ''gain_db'']"
    by (simp add: metadata_of_def)
  show "map_of (metadata_of a) ''gain_db''
      = Some (if arg_filter_type a = Peaking then JNum (PyFloat (arg_gain a)) else JNull)"
    by (simp add: metadata_of_def)
next
  assume json: "arg_output a = Json"
  then show run: "format_output e a cs
      = Inr (json_dumps (float_repr e) 0 (to_json_data cs (Some (metadata_of a))))"
    by (simp add: format_output_def to_json_def)
  obtain b0 b1 b2 a1 a2 where cs: "cs = (b0, b1, b2, a1, a2)"
    by (cases cs) auto
  show "\<exists>rest. to_json_data cs (Some (metadata_of a))
      = JObj (rest @ [(''metadata'', JObj (metadata_of a))])"
    by (rule exI [of _ "[(''coefficients'',
          JObj [(''b'', JArr [JNum (PyFloat b0), JNum (PyFloat b1), JNum (PyFloat b2)]),
                (''a'', JArr [JNum (PyFloat 1), JNum (PyFloat a1), JNum (PyFloat a2)])])]"])
      (simp add: to_json_data_def cs metadata_of_not_Nil)
  obtain p where p: "to_json (float_repr e) cs (Some (metadata_of a))
      = p @ json_dumps (float_repr e) 1 (JObj (metadata_of a)) @ nl @ ''}''"
    using to_json_with_metadata [OF metadata_of_not_Nil] by blast
  let ?tail = "'','' @ nl @ ''    '' @ quoted ''gain_db'' @ '': ''
      @ (if arg_filter_type a = Peaking then float_repr e (arg_gain a) else ''null'')
      @ nl @ ''  }'' @ nl @ ''}''"
  obtain m where "json_dumps (float_repr e) 1 (JObj (metadata_of a)) @ nl @ ''}'' = m @ ?tail"
    unfolding json_dumps_metadata_of by (metis append_assoc)
  with p have "to_json (float_repr e) cs (Some (metadata_of a)) = (p @ m) @ ?tail"
    by simp
  then have "format_output e a cs = Inr ((p @ m) @ ?tail)"
    using json by (simp add: format_output_def)
  then show "\<exists>pre. format_output e a cs = Inr (pre @ ?tail)"
    by blast
qed

theorem metadata_gain_db_witness:
  "map_of (metadata_of \<lparr>arg_filter_type = Peaking, arg_freq = 12000, arg_sample_rate = PyInt 48000,
       arg_q = 1, arg_gain = 6, arg_output = Json, arg_file = None,
       arg_width = 18, arg_frac_bits = 16\<rparr>) ''gain_db'' = Some (JNum (PyFloat 6))
   \<and> (\<exists>pre. format_output \<lparr>float_repr = fmt_f 0 1, can_open = List.null\<rparr>
        \<lparr>arg_filter_type = Highpass, arg_freq = 12000, arg_sample_rate = PyInt 48000,
         arg_q = 1, arg_gain = 6, arg_output = Json, arg_file = None,
         arg_width = 18, arg_frac_bits = 16\<rparr> (1 / 3, - 2 / 3, 1 / 3, 0, 1 / 3)
      = Inr (pre @ '','' @ nl @ ''    '' @ quoted ''gain_db'' @ '': null'' @ nl @ ''  }'' @ nl @ ''}''))"
proof -
  let ?e = "\<lparr>float_repr = fmt_f 0 1, can_open = List.null\<rparr>"
  let ?cs = "(1 / 3, - 2 / 3, 1 / 3, 0, 1 / 3) :: coeffs"
  let ?peak = "\<lparr>arg_filter_type = Peaking, arg_freq = 12000, arg_sample_rate = PyInt 48000,
      arg_q = 1, arg_gain = 6, arg_output = Json, arg_file = None,
      arg_width = 18, arg_frac_bits = 16\<rparr>"
  let ?high = "\<lparr>arg_filter_type = Highpass, arg_freq = 12000, arg_sample_rate = PyInt 48000,
      arg_q = 1, arg_gain = 6, arg_output = Json, arg_file = None,
      arg_width = 18, arg_frac_bits = 16\<rparr>"
  have "map_of (metadata_of ?peak) ''gain_db'' = Some (JNum (PyFloat 6))"
    using metadata_gain_db [of ?peak ?e ?cs] by simp
  moreover have "\<exists>pre. format_output ?e ?high ?cs
      = Inr (pre @ '','' @ nl @ ''    '' @ quoted ''gain_db'' @ '': null'' @ nl @ ''  }'' @ nl @ ''}'')"
  proof -
    have "arg_output ?high = Json"
      by simp
    with metadata_gain_db [of ?high ?e ?cs]
    have "\<exists>pre. format_output ?e ?high ?cs
        = Inr (pre @ '','' @ nl @ ''    '' @ quoted ''gain_db'' @ '': ''
               @ (if arg_filter_type ?high = Peaking then float_repr ?e (arg_gain ?high) else ''null'')
               @ nl @ ''  }'' @ nl @ ''}'')"
      by blast
    then show ?thesis
      by simp
  qed
  ultimately show ?thesis
    by simp
qed

text \<open>For a lowpass filter the key \<^verbatim>\<open>gain_db\<close> is present, with the value \<^verbatim>\<open>None\<close>.\<close>

theorem metadata_gain_db_counterexample:
  "map_of (metadata_of \<lparr>arg_filter_type = Lowpass, arg_freq = 1000, arg_sample_rate = PyInt 48000,
       arg_q = 707 / 1000, arg_gain = 0, arg_output = Json, arg_file = None,
       arg_width = 18, arg_frac_bits = 16\<rparr>) ''gain_db'' = Some JNull"
  by (simp add: metadata_of_def)

lemma generate_gain:
  "arg_filter_type a \<noteq> Peaking \<Longrightarrow> generate (a\<lparr>arg_gain := g\<rparr>) = generate a"
  by (cases "arg_filter_type a") (simp_all add: generate_def)

lemma metadata_of_gain:
  "arg_filter_type a \<noteq> Peaking \<Longrightarrow> metadata_of (a\<lparr>arg_gain := g\<rparr>) = metadata_of a"
  by (simp add: metadata_of_def)

lemma format_output_gain:
  "arg_filter_type a \<noteq> Peaking \<Longrightarrow> format_output e (a\<lparr>arg_gain := g\<rparr>) cs = format_output e a cs"
  by (cases "arg_output a") (simp_all add: format_output_def metadata_of_gain)

lemma write_output_gain: "write_output e (a\<lparr>arg_gain := g\<rparr>) doc = write_output e a doc"
  by (simp add: write_output_def)

lemma main_gain:
  "arg_filter_type a \<noteq> Peaking \<Longrightarrow> main e (a\<lparr>arg_gain := g\<rparr>) = main e a"
  by (simp add: main_def generate_gain format_output_gain write_output_gain cong: sum.case_cong)

text \<open>
  Claim C9. Two invocations that differ only in \<^verbatim>\<open>--gain\<close>, for a filter type other than
  peaking, have the same outcome (exit code, output text, error text and written file)
  whatever the output format: the coefficients and the metadata do not depend on the gain,
  and the recorded \<^verbatim>\<open>gain_db\<close> is \<^verbatim>\<open>None\<close>.
\<close>

theorem gain_ignored:
  assumes "arg_filter_type a \<noteq> Peaking"
  shows "main e (a\<lparr>arg_gain := g1\<rparr>) = main e (a\<lparr>arg_gain := g2\<rparr>)
    \<and> generate (a\<lparr>arg_gain := g1\<rparr>) = generate (a\<lparr>arg_gain := g2\<rparr>)
    \<and> metadata_of (a\<lparr>arg_gain := g1\<rparr>) = metadata_of (a\<lparr>arg_gain := g2\<rparr>)
    \<and> map_of (metadata_of (a\<lparr>arg_gain := g1\<rparr>)) ''gain_db'' = Some JNull"
  using assms by (simp add: main_gain generate_gain metadata_of_gain) (simp add: metadata_of_def)

theorem gain_ignored_witness:
  "main \<lparr>float_repr = fmt_f 0 1, can_open = List.null\<rparr>
        \<lparr>arg_filter_type = Bandpass, arg_freq = 12000, arg_sample_rate = PyInt 48000,
         arg_q = 1, arg_gain = 0, arg_output = Json, arg_file = None,
         arg_width = 18, arg_frac_bits = 16\<rparr>
   = main \<lparr>float_repr = fmt_f 0 1, can_open = List.null\<rparr>
        \<lparr>arg_filter_type = Bandpass, arg_freq = 12000, arg_sample_rate = PyInt 48000,
         arg_q = 1, arg_gain = 6, arg_output = Json, arg_file = None,
         arg_width = 18, arg_frac_bits = 16\<rparr>"
  using gain_ignored [of "\<lparr>arg_filter_type = Bandpass, arg_freq = 12000,
         arg_sample_rate = PyInt 48000, arg_q = 1, arg_gain = 0, arg_output = Json, arg_file = None,
         arg_width = 18, arg_frac_bits = 16\<rparr>" "\<lparr>float_repr = fmt_f 0 1, can_open = List.null\<rparr>" 0 6]
  by simp

section \<open>The encoders\<close>

text \<open>
  Claim C8. Each of the four encoders is a function of its arguments alone: the source
  reads no clock, locale, random source or global state, and the dict is written in
  insertion order. Two runs on the same coefficient set (and the same width and fractional
  bits for \<^verbatim>\<open>to_verilog\<close>, the same metadata for \<^verbatim>\<open>to_json\<close>) return the same text, or
  raise the same exception.
\<close>

theorem encoders_deterministic:
  assumes "cs1 = cs2" "width1 = width2" "frac_bits1 = frac_bits2" "metadata1 = metadata2"
  shows "to_verilog cs1 width1 frac_bits1 = to_verilog cs2 width2 frac_bits2
    \<and> to_c cs1 = to_c cs2
    \<and> to_matlab cs1 = to_matlab cs2
    \<and> to_json repr cs1 metadata1 = to_json repr cs2 metadata2"
  using assms by simp

theorem encoders_deterministic_witness:
  "to_verilog (1 / 2, - 1 / 4, 1 / 8, - 1, 1 / 2) 8 4 = to_verilog (1 / 2, - 1 / 4, 1 / 8, - 1, 1 / 2) 8 4
   \<and> to_c (1 / 2, - 1 / 4, 1 / 8, - 1, 1 / 2) = to_c (1 / 2, - 1 / 4, 1 / 8, - 1, 1 / 2)
   \<and> to_matlab (1 / 2, - 1 / 4, 1 / 8, - 1, 1 / 2) = to_matlab (1 / 2, - 1 / 4, 1 / 8, - 1, 1 / 2)
   \<and> to_json (fmt_f 0 1) (1 / 2, - 1 / 4, 1 / 8, - 1, 1 / 2) None
      = to_json (fmt_f 0 1) (1 / 2, - 1 / 4, 1 / 8, - 1, 1 / 2) None"
  using encoders_deterministic [of "(1 / 2, - 1 / 4, 1 / 8, - 1, 1 / 2)"
      "(1 / 2, - 1 / 4, 1 / 8, - 1, 1 / 2)" 8 8 4 4 None None "fmt_f 0 1"]
  by simp

section \<open>The hexadecimal field of the Verilog encoder\<close>

lemma length_digits_pos: "0 < length (digits b n)"
  by (subst digits.simps) simp

lemma length_digits_16_eq:
  "16 ^ k \<le> n \<Longrightarrow> n < 16 ^ Suc k \<Longrightarrow> length (digits 16 n) = Suc k"
proof (induction k arbitrary: n)
  case 0
  then show ?case
    by (subst digits.simps) simp
next
  case (Suc k)
  from Suc.prems have big: "\<not> n < 16"
    by (simp add: not_less) (metis le_trans one_le_numeral one_le_power mult.right_neutral mult_le_mono2)
  from Suc.prems have "16 ^ k \<le> n div 16" "n div 16 < 16 ^ Suc k"
    by (simp_all add: less_mult_imp_div_less div_greater_zero_iff le_div_geq
        Suc_leI less_eq_div_iff_mult_less_eq mult.commute)
  then have "length (digits 16 (n div 16)) = Suc k"
    by (rule Suc.IH)
  with big show ?case
    by (subst digits.simps) simp
qed

lemma length_digits_16_le:
  "n < 16 ^ Suc k \<Longrightarrow> length (digits 16 n) \<le> Suc k"
proof (induction k arbitrary: n)
  case 0
  then show ?case
    by (subst digits.simps) simp
next
  case (Suc k)
  show ?case
  proof (cases "n < 16")
    case True
    then show ?thesis
      by (subst digits.simps) simp
  next
    case False
    from Suc.prems have "n div 16 < 16 ^ Suc k"
      by (simp add: less_mult_imp_div_less mult.commute)
    then have "length (digits 16 (n div 16)) \<le> Suc k"
      by (rule Suc.IH)
    with False show ?thesis
      by (subst digits.simps) simp
  qed
qed

lemma length_zfill: "length (zfill w s) = max w (length s)"
  by (simp add: zfill_def)

lemma length_fmt_hex: "0 \<le> p \<Longrightarrow> length (fmt_hex w p) = max w (length (digits 16 (nat p)))"
  by (simp add: fmt_hex_def length_zfill)


lemma nibbles_of_width:
  fixes width :: int
  assumes "0 < width" "width mod 4 \<noteq> 0"
  shows "4 * nat (width div 4) \<le> nat width - 1" and "nat width < 4 * nat (width div 4) + 4"
proof -
  from assms have lo: "4 * (width div 4) \<le> width - 1" and hi: "width < 4 * (width div 4) + 4"
    by presburger+
  from assms(1) have "0 \<le> width div 4"
    by simp
  with lo assms(1) show "4 * nat (width div 4) \<le> nat width - 1"
    by arith
  from hi \<open>0 \<le> width div 4\<close> assms(1) show "nat width < 4 * nat (width div 4) + 4"
    by arith
qed

lemma sixteen_power: "(16::int) ^ k = 2 ^ (4 * k)"
  by (simp add: power_mult)

lemma pattern_bounds:
  fixes width :: int
  assumes "0 < width" "width mod 4 \<noteq> 0"
  shows "(16::int) ^ nat (width div 4) \<le> 2 ^ (nat width - 1)"
    and "(2::int) ^ nat width < 16 ^ Suc (nat (width div 4))"
proof -
  show "(16::int) ^ nat (width div 4) \<le> 2 ^ (nat width - 1)"
    unfolding sixteen_power using nibbles_of_width(1) [OF assms]
    by (intro power_increasing) simp_all
  have "nat width < 4 * Suc (nat (width div 4))"
    using nibbles_of_width(2) [OF assms] by simp
  then show "(2::int) ^ nat width < 16 ^ Suc (nat (width div 4))"
    unfolding sixteen_power by (intro power_strict_increasing) simp_all
qed

lemma wrap_negative:
  fixes raw :: int
  assumes "0 < n" "- (2 ^ (n - 1)) \<le> raw" "raw < 0"
  shows "2 ^ (n - 1) \<le> raw AND (2 ^ n - 1)"
proof -
  from assms(1) have n: "(2::int) ^ n = 2 * 2 ^ (n - 1)"
    by (cases n) simp_all
  have pos: "(0::int) < 2 ^ (n - 1)"
    by simp
  with assms(2) n have "0 \<le> raw + 2 ^ n"
    by linarith
  moreover from assms(3) have "raw + 2 ^ n < 2 ^ n"
    by simp
  ultimately have "(raw + 2 ^ n) mod 2 ^ n = raw + 2 ^ n"
    by (rule mod_pos_pos_trivial)
  then have "raw mod 2 ^ n = raw + 2 ^ n"
    by simp
  then have "raw AND (2 ^ n - 1) = raw + 2 ^ n"
    by (simp only: and_pow2_minus_1)
  with assms(2) n pos show ?thesis
    by linarith
qed

text \<open>
  Claim C10, as the code has it. The field \<^verbatim>\<open>{to_fixed(v):0{width//4}X}\<close> has at least
  \<open>width div 4\<close> digits. For a positive width that is not a multiple of four, a pattern of
  at least \<open>16\<^bsup>width div 4\<^esup>\<close> has \<open>width div 4 + 1\<close> digits and a smaller one (for
  \<open>width \<ge> 4\<close>) has \<open>width div 4\<close>. A coefficient whose truncated scaled value lies in
  \<open>[-2\<^bsup>width-1\<^esup>, 0)\<close> wraps to at least \<open>2\<^bsup>width-1\<^esup>\<close> and so has the longer field.
\<close>

theorem hex_field_length:
  assumes "0 < width" "width mod 4 \<noteq> 0" "to_fixed width frac_bits v = Inr p"
  shows "nat (width div 4) \<le> length (fmt_hex (nat (width div 4)) p)
    \<and> (16 ^ nat (width div 4) \<le> p \<longrightarrow>
          length (fmt_hex (nat (width div 4)) p) = nat (width div 4) + 1)
    \<and> (p < 16 ^ nat (width div 4) \<and> 4 \<le> width \<longrightarrow>
          length (fmt_hex (nat (width div 4)) p) = nat (width div 4))
    \<and> (- (2 ^ (nat width - 1)) \<le> py_int (v * scale_of frac_bits)
        \<and> py_int (v * scale_of frac_bits) < 0 \<longrightarrow>
          2 ^ (nat width - 1) \<le> p \<and> 16 ^ nat (width div 4) \<le> p
        \<and> length (fmt_hex (nat (width div 4)) p) = nat (width div 4) + 1)"
proof -
  define k where "k = nat (width div 4)"
  let ?raw = "py_int (v * scale_of frac_bits)"
  have p: "p = ?raw AND (2 ^ nat width - 1)"
    using assms(3) by (rule to_fixed_InrD)
  have p0: "0 \<le> p" and pw: "p < 2 ^ nat width"
    by (simp_all add: p and_pow2_minus_1)
  have len: "length (fmt_hex k p) = max k (length (digits 16 (nat p)))"
    using p0 by (rule length_fmt_hex)
  from pw pattern_bounds(2) [OF assms(1,2)] have "p < 16 ^ Suc k"
    by (simp add: k_def)
  with p0 have upper: "nat p < 16 ^ Suc k"
    by (simp add: nat_less_iff)
  have five: "length (fmt_hex k p) = k + 1" if "16 ^ k \<le> p"
  proof -
    from that have "16 ^ k \<le> nat p"
      by (simp add: le_nat_iff)
    then have "length (digits 16 (nat p)) = Suc k"
      using upper by (rule length_digits_16_eq)
    then show ?thesis
      by (simp add: len)
  qed
  have four: "length (fmt_hex k p) = k" if "p < 16 ^ k" "4 \<le> width"
  proof -
    from that(2) have "0 < k"
      by (simp add: k_def)
    then obtain j where j: "k = Suc j"
      by (cases k) simp_all
    from that(1) p0 have "nat p < 16 ^ Suc j"
      by (simp add: j nat_less_iff)
    then have "length (digits 16 (nat p)) \<le> Suc j"
      by (rule length_digits_16_le)
    then have "length (digits 16 (nat p)) \<le> k"
      by (simp only: j)
    then show ?thesis
      by (simp add: len)
  qed
  have neg: "2 ^ (nat width - 1) \<le> p \<and> 16 ^ k \<le> p" if "- (2 ^ (nat width - 1)) \<le> ?raw" "?raw < 0"
  proof -
    from assms(1) have "0 < nat width"
      by simp
    then have "2 ^ (nat width - 1) \<le> p"
      unfolding p using that by (rule wrap_negative)
    with pattern_bounds(1) [OF assms(1,2)] show ?thesis
      by (simp add: k_def)
  qed
  show ?thesis
    unfolding k_def [symmetric] using len five four neg by auto
qed

theorem hex_field_length_witness:
  "to_fixed 18 16 (3 / 2) = Inr 98304 \<and> length (fmt_hex 4 98304) = 5
   \<and> to_fixed 18 16 (1 / 2) = Inr 32768 \<and> length (fmt_hex 4 32768) = 4
   \<and> to_fixed 18 16 (- 1 / 4) = Inr 245760 \<and> length (fmt_hex 4 245760) = 5"
  using hex_field_length [of 18 16 "3 / 2" 98304] hex_field_length [of 18 16 "1 / 2" 32768]
    hex_field_length [of 18 16 "- 1 / 4" 245760]
  by (simp add: to_fixed_def scale_def scale_of_def py_int_def)

text \<open>Not every negative coefficient wraps to a large pattern: \<open>-3 / 2\<^bsup>18\<^esup>\<close> scaled by
  \<open>2\<^bsup>16\<^esup>\<close> is \<open>-0.75\<close>, truncated to \<open>0\<close>, and the field is \<^verbatim>\<open>0000\<close>.\<close>

theorem negative_coefficient_counterexample:
  "(- 3 / 262144 :: real) < 0 \<and> to_fixed 18 16 (- 3 / 262144) = Inr 0
   \<and> fmt_hex (nat (18 div 4)) 0 = ''0000''"
  by (simp add: to_fixed_def scale_def scale_of_def py_int_def fmt_hex_def zfill_def digits.simps digit_char_def)
    (simp add: eval_nat_numeral)

text \<open>Two lines of one document that differ in length only by the hexadecimal field, and
  the wrapped value \<open>-16\<close> at width \<open>8\<close>.\<close>

lemma param_line_examples:
  "param_line ''B0'' 18 16 (3 / 2) = Inr (''parameter B0 = 18'h18000; // 1.500000'')"
  "param_line ''B1'' 18 16 (1 / 2) = Inr (''parameter B1 = 18'h8000; // 0.500000'')"
  "param_line ''A1'' 8 4 (- 1) = Inr (''parameter A1 = 8'hF0; // -1.000000'')"
    apply (simp_all add: param_line_def to_fixed_def scale_def scale_of_def py_int_def fmt_f_def
      round_half_even_def Let_def)
    apply (simp_all add: fmt_hex_def zfill_def digits.simps digit_char_def str_int_def)
  apply (simp add: eval_nat_numeral)
  done

end
